theory Spec2Isabelle
  imports Complex_Main "HOL-Library.Log_Nat" "HOL-Library.AList"
begin

section \<open>The plot viewer of vscode-R: \<open>src/plotViewer/index.ts\<close>\<close>

text \<open>
  The development embeds the session class \<open>HttpgdViewer\<close>, the registry class
  \<open>HttpgdManager\<close> and the Live Share handlers of \<open>src/liveShare/shareCommands.ts\<close>.
  An object is a record, a method is a function from the record to the updated record
  together with the list of things it did to its collaborators (messages posted to the
  webview, calls it started). A method declared \<open>async\<close> that can reject returns an
  \<open>outcome\<close>.
\<close>

subsection \<open>Values of JavaScript\<close>

text \<open>
  An optional string is \<open>string option\<close>, \<open>None\<close> for \<open>undefined\<close>. JavaScript's
  \<open>!x\<close> holds of \<open>undefined\<close> and of the empty string; \<open>a || b\<close> is \<open>b\<close> when \<open>a\<close> is
  falsy, \<open>a ?? b\<close> is \<open>b\<close> only when \<open>a\<close> is \<open>undefined\<close>.
\<close>

definition truthy :: "string option \<Rightarrow> bool" where
  "truthy x = (case x of None \<Rightarrow> False | Some s \<Rightarrow> s \<noteq> [])"

definition or_else :: "string option \<Rightarrow> string option \<Rightarrow> string option" where
  "or_else a b = (if truthy a then a else b)"

definition nullish :: "'a option \<Rightarrow> 'a option \<Rightarrow> 'a option" where
  "nullish a b = (case a of None \<Rightarrow> b | Some v \<Rightarrow> Some v)"

text \<open>\<open>Array.prototype.findIndex\<close>: the first index whose element satisfies the test, \<open>-1\<close> when none does.\<close>

fun findIndex :: "('a \<Rightarrow> bool) \<Rightarrow> 'a list \<Rightarrow> int" where
  "findIndex P [] = - 1"
| "findIndex P (x # xs) =
     (if P x then 0 else (let i = findIndex P xs in if i < 0 then - 1 else i + 1))"

text \<open>\<open>xs[i]\<close>: reading an array out of range gives \<open>undefined\<close>.\<close>

definition at_index :: "'a list \<Rightarrow> int \<Rightarrow> 'a option" where
  "at_index xs i = (if 0 \<le> i \<and> i < int (length xs) then Some (xs ! nat i) else None)"

subsection \<open>JavaScript numbers\<close>

text \<open>
  A JavaScript number is an IEEE 754 double. A finite double is kept as the rational
  it denotes. The sum and the difference of two doubles are the exact sum and difference
  rounded to the nearest double, ties to the even significand (53 significant bits):
  \<open>binade q\<close> is the exponent \<open>e\<close> with \<open>2^e \<le> |q| < 2^(e+1)\<close>, and the doubles of that
  binade are the multiples of \<open>2^(e-52)\<close>. Overflow and subnormal results lie far from
  the magnitudes a zoom factor takes and are left out. \<open>double_0_1\<close> is the double the
  literal \<open>0.1\<close> denotes, \<open>3602879701896397 / 2^55\<close>.
\<close>

definition round_half_even :: "rat \<Rightarrow> int" where
  "round_half_even q =
     (let f = \<lfloor>q\<rfloor>; r = q - of_int f
      in if r < 1 / 2 then f else if 1 / 2 < r then f + 1 else if even f then f else f + 1)"

definition pow2 :: "int \<Rightarrow> rat" where
  "pow2 e = (if 0 \<le> e then 2 ^ nat e else 1 / 2 ^ nat (- e))"

definition binade :: "rat \<Rightarrow> int" where
  "binade q =
     (let (n, d) = quotient_of \<bar>q\<bar>;
          e0 = bitlen n - bitlen d
      in if pow2 e0 \<le> \<bar>q\<bar> then e0 else e0 - 1)"

definition round_double :: "rat \<Rightarrow> rat" where
  "round_double q =
     (if q = 0 then 0
      else (let ulp = pow2 (binade q - 52) in of_int (round_half_even (q / ulp)) * ulp))"

definition js_add :: "rat \<Rightarrow> rat \<Rightarrow> rat" where
  "js_add a b = round_double (a + b)"

definition js_sub :: "rat \<Rightarrow> rat \<Rightarrow> rat" where
  "js_sub a b = round_double (a - b)"

definition double_0_1 :: rat where
  "double_0_1 = 3602879701896397 / 36028797018963968"

subsection \<open>Plots, messages and the session record\<close>

text \<open>
  \<open>HttpgdPlot<string>\<close>, its fields \<open>id\<close>, \<open>data\<close>, \<open>height\<close>, \<open>width\<close> and \<open>zoom\<close>
  prefixed with \<open>plot_\<close>. Sizes are pixel counts; the zoom factor is a JavaScript
  number, kept as the rational it denotes.
\<close>

record HttpgdPlot =
  plot_id :: string
  plot_data :: string
  plot_height :: int
  plot_width :: int
  plot_zoom :: rat

datatype PreviewPlotLayout = multirow | scroll | hidden

text \<open>The messages a session posts to its webview (\<open>InMessage\<close>).\<close>

datatype InMessage =
    FocusPlotMessage string
  | UpdatePlotMessage string string
  | HidePlotMessage string
  | AddPlotMessage HttpgdPlot
  | ToggleStyleMessage bool
  | ToggleFullWindowMessage bool
  | PreviewPlotLayoutMessage PreviewPlotLayout

text \<open>
  What a method does besides changing the session. A call written \<open>void f()\<close> is not
  awaited: when \<open>f\<close> itself awaits a fetch, only the part of \<open>f\<close> before that point
  runs inside the caller, and the call is recorded (\<open>Start_refreshPlots\<close>,
  \<open>Start_resizePlot\<close>); what \<open>f\<close> does once its fetch resolves is a later step.
\<close>

datatype effect =
    PostMessage InMessage
  | RefreshHtml
  | SetContextValues
  | Start_refreshPlots
  | Start_resizePlot
  | ApiRemovePlot string
  | ApiGetPlot "string option" string
  | CreateWriteStream string
  | ShowWarningMessage string
  | ClearTimeout
  | SetTimeout int

record HttpgdViewer =
  host :: string
  token :: "string option"
  webviewPanel :: bool
  plots :: "HttpgdPlot list"
  activePlot :: "string option"
  hiddenPlots :: "string list"
  stripStyles :: bool
  previewPlotLayout :: PreviewPlotLayout
  fullWindow :: bool
  viewHeight :: int
  viewWidth :: int
  plotHeight :: int
  plotWidth :: int
  zoom :: rat
  resizeTimeout :: bool
  resizeTimeoutLength :: int
  refreshTimeoutLength :: int
  lastExportUri :: "string option"
  pid :: "string option"

text \<open>\<open>postWebviewMessage\<close>: \<open>this.webviewPanel?.webview.postMessage(msg)\<close>.\<close>

definition postWebviewMessage :: "HttpgdViewer \<Rightarrow> InMessage \<Rightarrow> effect list" where
  "postWebviewMessage s msg = (if webviewPanel s then [PostMessage msg] else [])"

subsection \<open>Display toggles\<close>

text \<open>\<open>toggleStyle(force?: boolean)\<close>: \<open>this.stripStyles = force ?? !this.stripStyles\<close>.\<close>

definition toggleStyle :: "HttpgdViewer \<Rightarrow> bool option \<Rightarrow> HttpgdViewer \<times> effect list" where
  "toggleStyle s force =
     (let s1 = s\<lparr>stripStyles := (case force of Some b \<Rightarrow> b | None \<Rightarrow> \<not> stripStyles s)\<rparr>
      in (s1, postWebviewMessage s1 (ToggleStyleMessage (stripStyles s1))))"

text \<open>\<open>toggleFullWindow(force?: boolean)\<close>: \<open>this.fullWindow = force ?? !this.fullWindow\<close>.\<close>

definition toggleFullWindow :: "HttpgdViewer \<Rightarrow> bool option \<Rightarrow> HttpgdViewer \<times> effect list" where
  "toggleFullWindow s force =
     (let s1 = s\<lparr>fullWindow := (case force of Some b \<Rightarrow> b | None \<Rightarrow> \<not> fullWindow s)\<rparr>
      in (s1, postWebviewMessage s1 (ToggleFullWindowMessage (fullWindow s1))))"

subsection \<open>The graphics device client and the constructor\<close>

text \<open>
  The client object \<open>this.api\<close> (class \<open>Httpgd\<close> of the package \<open>httpgd\<close>) is a
  collaborator: \<open>getPlots\<close> is the list of plot ids the server last announced, and
  \<open>getPlot\<close> the text of the server's answer to a render request for an id, a width,
  a height, a zoom factor and a renderer (the empty string when there is none).
\<close>

record HttpgdIdResponse =
  resp_id :: string

record Httpgd =
  getPlots :: "HttpgdIdResponse list"
  getPlot :: "string \<Rightarrow> int \<Rightarrow> int \<Rightarrow> rat \<Rightarrow> string \<Rightarrow> string"

text \<open>The fields of \<open>HttpgdViewerOptions\<close> the constructor reads for the session's state.\<close>

record HttpgdViewerOptions =
  opt_token :: "string option"
  opt_stripStyles :: "bool option"
  opt_previewPlotLayout :: "PreviewPlotLayout option"
  opt_fullWindow :: "bool option"
  opt_refreshTimeoutLength :: "int option"
  opt_resizeTimeoutLength :: "int option"

text \<open>
  The constructor, with the field initialisers of the class: the view is 800 by 600,
  the zoom \<open>zoom0 = 1\<close>, the resize window 1300 and the refresh delay 10 unless the
  options say otherwise. Both timeout lengths are read from
  \<open>options.refreshTimeoutLength\<close>:
  \<^verbatim>\<open>this.resizeTimeoutLength = options.refreshTimeoutLength ?? this.resizeTimeoutLength;\<close>
  \<^verbatim>\<open>this.refreshTimeoutLength = options.refreshTimeoutLength ?? this.refreshTimeoutLength;\<close>
\<close>

definition new_HttpgdViewer :: "string \<Rightarrow> HttpgdViewerOptions \<Rightarrow> string option \<Rightarrow> HttpgdViewer" where
  "new_HttpgdViewer h options p =
     \<lparr> host = h,
       token = opt_token options,
       webviewPanel = False,
       plots = [],
       activePlot = None,
       hiddenPlots = [],
       stripStyles = (case opt_stripStyles options of None \<Rightarrow> True | Some b \<Rightarrow> b),
       previewPlotLayout = (case opt_previewPlotLayout options of None \<Rightarrow> multirow | Some l \<Rightarrow> l),
       fullWindow = (case opt_fullWindow options of None \<Rightarrow> False | Some b \<Rightarrow> b),
       viewHeight = 600,
       viewWidth = 800,
       plotHeight = 600,
       plotWidth = 800,
       zoom = 1,
       resizeTimeout = False,
       resizeTimeoutLength = (case opt_refreshTimeoutLength options of None \<Rightarrow> 1300 | Some n \<Rightarrow> n),
       refreshTimeoutLength = (case opt_refreshTimeoutLength options of None \<Rightarrow> 10 | Some n \<Rightarrow> n),
       lastExportUri = None,
       pid = p \<rparr>"

subsection \<open>The active plot, by id and by index\<close>

definition getIndex :: "HttpgdViewer \<Rightarrow> string \<Rightarrow> int" where
  "getIndex s i = findIndex (\<lambda>plt. plot_id plt = i) (plots s)"

text \<open>The getter \<open>activeIndex\<close>: \<open>-1\<close> when \<open>!this.activePlot\<close>, else the index of that id.\<close>

definition activeIndex :: "HttpgdViewer \<Rightarrow> int" where
  "activeIndex s =
     (case activePlot s of
        None \<Rightarrow> - 1
      | Some i \<Rightarrow> if i = [] then - 1 else getIndex s i)"

text \<open>The setter \<open>activeIndex\<close>: clamps the index and stores the id found there.\<close>

definition set_activeIndex :: "HttpgdViewer \<Rightarrow> int \<Rightarrow> HttpgdViewer" where
  "set_activeIndex s ind =
     (if length (plots s) = 0 then s\<lparr>activePlot := None\<rparr>
      else let ind1 = max ind 0;
               ind2 = min ind1 (int (length (plots s)) - 1)
           in s\<lparr>activePlot := Some (plot_id (plots s ! nat ind2))\<rparr>)"

subsection \<open>Focus, refresh and navigation\<close>

text \<open>\<open>_focusPlot(plotId?)\<close>: posts the focus message for the given or the active id.\<close>

definition focusPlot_msg :: "HttpgdViewer \<Rightarrow> string option \<Rightarrow> effect list" where
  "focusPlot_msg s plotId =
     (case nullish plotId (activePlot s) of
        None \<Rightarrow> []
      | Some i \<Rightarrow> if i = [] then []
                 else postWebviewMessage s (FocusPlotMessage i) @ [SetContextValues])"

text \<open>
  The first three lines of \<open>focusPlot(id?)\<close>: the assignment
  \<open>this.activePlot = id || this.activePlot\<close>, the read \<open>this.plots[this.activeIndex]\<close>,
  and the comparison that chooses between a refresh and a focus message,
  \<^verbatim>\<open>plt.height !== this.viewHeight || plt.width !== this.viewHeight || plt.zoom !== this.zoom\<close>.
  \<open>NoPlot\<close> is the case where the read gives \<open>undefined\<close> and \<open>plt.height\<close> throws.
\<close>

datatype focus_choice = NoPlot | Stale | Fresh

definition focusPlot_begin :: "HttpgdViewer \<Rightarrow> string option \<Rightarrow> HttpgdViewer \<times> focus_choice" where
  "focusPlot_begin s i =
     (let s1 = s\<lparr>activePlot := or_else i (activePlot s)\<rparr>
      in (s1,
          case at_index (plots s1) (activeIndex s1) of
            None \<Rightarrow> NoPlot
          | Some plt \<Rightarrow>
              if plot_height plt \<noteq> viewHeight s1 \<or> plot_width plt \<noteq> viewHeight s1
                 \<or> plot_zoom plt \<noteq> zoom s1
              then Stale else Fresh))"

text \<open>\<open>getPlotContent(id, width, height, zoom)\<close>: one render request with the renderer \<open>svgp\<close>.\<close>

definition getPlotContent :: "Httpgd \<Rightarrow> string \<Rightarrow> int \<Rightarrow> int \<Rightarrow> rat \<Rightarrow> HttpgdPlot" where
  "getPlotContent api i w h z =
     \<lparr> plot_id = i, plot_data = getPlot api i w h z ''svgp'',
       plot_height = h, plot_width = w, plot_zoom = z \<rparr>"

definition updatePlot :: "HttpgdViewer \<Rightarrow> HttpgdPlot \<Rightarrow> effect list" where
  "updatePlot s plt = postWebviewMessage s (UpdatePlotMessage (plot_id plt) (plot_data plt))"

text \<open>
  \<open>addPlot(plt)\<close> posts the new plot's fragment and then calls
  \<open>void this.focusPlot(plt.id)\<close>: the assignment to \<open>activePlot\<close> and the choice are made
  at once; a refresh chosen there is only started.
\<close>

definition addPlot :: "HttpgdViewer \<Rightarrow> HttpgdPlot \<Rightarrow> HttpgdViewer \<times> effect list" where
  "addPlot s plt =
     (let (s1, c) = focusPlot_begin s (Some (plot_id plt))
      in (s1,
          postWebviewMessage s (AddPlotMessage plt)
          @ (case c of NoPlot \<Rightarrow> [] | Stale \<Rightarrow> [Start_refreshPlots] | Fresh \<Rightarrow> focusPlot_msg s1 None)
          @ [SetContextValues]))"

text \<open>\<open>refreshHtml()\<close>: makes the webview if there is none and rebuilds its page.\<close>

definition refreshHtml :: "HttpgdViewer \<Rightarrow> HttpgdViewer \<times> effect list" where
  "refreshHtml s =
     (let s1 = s\<lparr>webviewPanel := True\<rparr>;
          (s2, es) = toggleFullWindow s1 (Some (fullWindow s1))
      in (s2, RefreshHtml # es @ [SetContextValues]))"

text \<open>
  The loop at the end of \<open>refreshPlots\<close>: a plot whose id was shown before is updated
  in place, any other is added.
\<close>

fun patch_display :: "string list \<Rightarrow> HttpgdViewer \<Rightarrow> HttpgdPlot list \<Rightarrow> HttpgdViewer \<times> effect list" where
  "patch_display oldPlotIds s [] = (s, [])"
| "patch_display oldPlotIds s (plt # rest) =
     (if plot_id plt \<in> set oldPlotIds
      then (let (s2, es2) = patch_display oldPlotIds s rest in (s2, updatePlot s plt @ es2))
      else (let (s1, es1) = addPlot s plt;
                (s2, es2) = patch_display oldPlotIds s1 rest
            in (s2, es1 @ es2)))"

text \<open>
  \<open>refreshPlots(plotsIdResponse, redraw, force)\<close>, from the call to the resolution of
  its promise.
\<close>

definition refreshPlots ::
  "Httpgd \<Rightarrow> HttpgdViewer \<Rightarrow> HttpgdIdResponse list \<Rightarrow> bool \<Rightarrow> bool \<Rightarrow> HttpgdViewer \<times> effect list" where
  "refreshPlots api s plotsIdResponse redraw force =
     (let nPlots = length (plots s);
          plotIds = filter (\<lambda>i. i \<notin> set (hiddenPlots s)) (map resp_id plotsIdResponse);
          newPlots = map (\<lambda>i.
              case find (\<lambda>plt. plot_id plt = i) (plots s) of
                None \<Rightarrow> getPlotContent api i (viewWidth s) (viewHeight s) (zoom s)
              | Some plot \<Rightarrow>
                  if force \<or> Some i = activePlot s
                  then getPlotContent api i (viewWidth s) (viewHeight s) (zoom s)
                  else plot) plotIds;
          oldPlotIds = map plot_id (plots s);
          s1 = s\<lparr>plots := newPlots\<rparr>;
          s2 = (if length (plots s1) \<noteq> nPlots
                then s1\<lparr>activePlot :=
                        map_option plot_id (at_index (plots s1) (int (length (plots s1)) - 1))\<rparr>
                else s1)
      in if redraw \<or> \<not> webviewPanel s2 then refreshHtml s2
         else (let (s3, es) = patch_display oldPlotIds s2 (plots s2)
               in (s3, es @ focusPlot_msg s3 None)))"

text \<open>An \<open>async\<close> method either resolves or rejects; the session keeps what was assigned before the throw.\<close>

datatype js_error = TypeError

datatype outcome = Returned HttpgdViewer "effect list" | Rejected js_error HttpgdViewer

text \<open>\<open>focusPlot(id?)\<close>: the refresh it chooses is awaited, with the server's current list.\<close>

definition focusPlot :: "Httpgd \<Rightarrow> HttpgdViewer \<Rightarrow> string option \<Rightarrow> outcome" where
  "focusPlot api s i =
     (case focusPlot_begin s i of
        (s1, NoPlot) \<Rightarrow> Rejected TypeError s1
      | (s1, Stale) \<Rightarrow> (let (s2, es) = refreshPlots api s1 (getPlots api) False False in Returned s2 es)
      | (s1, Fresh) \<Rightarrow> Returned s1 (focusPlot_msg s1 None))"

text \<open>\<open>nextPlot(last?)\<close> and \<open>prevPlot(first?)\<close>: move the index through the setter, then focus.\<close>

definition nextPlot :: "Httpgd \<Rightarrow> HttpgdViewer \<Rightarrow> bool option \<Rightarrow> outcome" where
  "nextPlot api s last_arg =
     focusPlot api
       (set_activeIndex s (if last_arg = Some True then int (length (plots s)) - 1 else activeIndex s + 1))
       None"

definition prevPlot :: "Httpgd \<Rightarrow> HttpgdViewer \<Rightarrow> bool option \<Rightarrow> outcome" where
  "prevPlot api s first_arg =
     focusPlot api
       (set_activeIndex s (if first_arg = Some True then 0 else activeIndex s - 1))
       None"

subsection \<open>Hiding and closing\<close>

definition hidePlot_msg :: "HttpgdViewer \<Rightarrow> string \<Rightarrow> effect list" where
  "hidePlot_msg s i = postWebviewMessage s (HidePlotMessage i)"

text \<open>\<open>hidePlot(id?)\<close>.\<close>

definition hidePlot :: "HttpgdViewer \<Rightarrow> string option \<Rightarrow> HttpgdViewer \<times> effect list" where
  "hidePlot s id_arg =
     (case nullish id_arg (activePlot s) of
        None \<Rightarrow> (s, [])
      | Some i \<Rightarrow>
          if i = [] then (s, [])
          else (let tmpIndex = activeIndex s;
                    s1 = s\<lparr>hiddenPlots := hiddenPlots s @ [i]\<rparr>;
                    s2 = s1\<lparr>plots := filter (\<lambda>plt. plot_id plt \<notin> set (hiddenPlots s1)) (plots s1)\<rparr>
                in if Some i = activePlot s2
                   then (let s3 = set_activeIndex s2 tmpIndex
                         in (s3, focusPlot_msg s3 None @ hidePlot_msg s3 i))
                   else (s2, hidePlot_msg s2 i)))"

text \<open>\<open>closePlot(id?)\<close>: hides locally, then asks the server to remove the plot.\<close>

definition closePlot :: "HttpgdViewer \<Rightarrow> string option \<Rightarrow> HttpgdViewer \<times> effect list" where
  "closePlot s id_arg =
     (case nullish id_arg (activePlot s) of
        None \<Rightarrow> (s, [])
      | Some i \<Rightarrow>
          if i = [] then (s, [])
          else (let (s1, es) = hidePlot s (Some i) in (s1, es @ [ApiRemovePlot i])))"

subsection \<open>The invariant of the active plot\<close>

text \<open>
  The two invariants of a session that concern the active plot, as predicates:
  \<open>active_ok\<close> says that the active id is set exactly when there are plots, and then is
  the non-empty id of one of them (so the getter \<open>activeIndex\<close> is an index of \<open>plots\<close>);
  \<open>ids_ok\<close> says that no plot has the empty id and no plot is hidden.
\<close>

definition active_ok :: "HttpgdViewer \<Rightarrow> bool" where
  "active_ok s =
     (case activePlot s of
        None \<Rightarrow> plots s = []
      | Some i \<Rightarrow> i \<noteq> [] \<and> i \<in> plot_id ` set (plots s))"

definition ids_ok :: "HttpgdViewer \<Rightarrow> bool" where
  "ids_ok s = ([] \<notin> plot_id ` set (plots s) \<and> set (hiddenPlots s) \<inter> plot_id ` set (plots s) = {})"

subsection \<open>Resizing and zooming\<close>

text \<open>
  \<open>resizePlot(id?)\<close> runs in two parts, with an \<open>await\<close> between them. Before it,
  the method takes the given or the active id, returns if there is none, and sends the
  render request for that id at the view size and zoom of that moment
  (\<open>resizePlot_begin\<close>: the request as id, width, height and zoom, \<open>None\<close> for the early
  return). When the request resolves, the method stores the rendered size in
  \<open>plotWidth\<close> and \<open>plotHeight\<close> and posts the plot, on the session as it is by then
  (\<open>resizePlot_resolved\<close>); the entry of \<open>plots\<close> is left as it was. When the request
  rejects, the second part does not run. \<open>resizePlot\<close> is the two parts with nothing in
  between.
\<close>

type_synonym render_request = "string \<times> int \<times> int \<times> rat"

definition resizePlot_begin :: "HttpgdViewer \<Rightarrow> string option \<Rightarrow> render_request option" where
  "resizePlot_begin s id_arg =
     (case nullish id_arg (activePlot s) of
        None \<Rightarrow> None
      | Some i \<Rightarrow> if i = [] then None else Some (i, viewWidth s, viewHeight s, zoom s))"

definition resizePlot_resolved ::
  "Httpgd \<Rightarrow> HttpgdViewer \<Rightarrow> render_request \<Rightarrow> HttpgdViewer \<times> effect list" where
  "resizePlot_resolved api s rq =
     (case rq of
        (i, w, h, z) \<Rightarrow>
          (let plt = getPlotContent api i w h z;
               s1 = s\<lparr>plotWidth := plot_width plt, plotHeight := plot_height plt\<rparr>
           in (s1, updatePlot s1 plt)))"

definition resizePlot :: "Httpgd \<Rightarrow> HttpgdViewer \<Rightarrow> string option \<Rightarrow> HttpgdViewer \<times> effect list" where
  "resizePlot api s id_arg =
     (case resizePlot_begin s id_arg of
        None \<Rightarrow> (s, [])
      | Some rq \<Rightarrow> resizePlot_resolved api s rq)"

text \<open>
  \<open>handleResize(height, width, userTriggered)\<close>. The field \<open>resizeTimeout\<close> says whether
  a timer is pending. A resize that is user-triggered, or any resize when the window
  length is 0, clears the timer and starts \<open>resizePlot\<close>; otherwise a timer is set unless
  one is pending.
\<close>

definition handleResize :: "HttpgdViewer \<Rightarrow> int \<Rightarrow> int \<Rightarrow> bool \<Rightarrow> HttpgdViewer \<times> effect list" where
  "handleResize s height width userTriggered =
     (let s1 = s\<lparr>viewHeight := height, viewWidth := width\<rparr>
      in if userTriggered \<or> resizeTimeoutLength s1 = 0
         then (s1\<lparr>resizeTimeout := False\<rparr>,
               (if resizeTimeout s1 then [ClearTimeout] else []) @ [Start_resizePlot])
         else if \<not> resizeTimeout s1
         then (s1\<lparr>resizeTimeout := True\<rparr>, [SetTimeout (resizeTimeoutLength s1)])
         else (s1, []))"


definition resizeTimeout_resolved ::
  "Httpgd \<Rightarrow> HttpgdViewer \<Rightarrow> render_request \<Rightarrow> HttpgdViewer \<times> effect list" where
  "resizeTimeout_resolved api s rq =
     (let (s1, es) = resizePlot_resolved api s rq in (s1\<lparr>resizeTimeout := False\<rparr>, es))"


text \<open>\<open>zoomOut()\<close>: \<open>if (this.zoom > 0) { this.zoom -= 0.1; void this.resizePlot(); }\<close>.\<close>

definition zoomOut :: "HttpgdViewer \<Rightarrow> HttpgdViewer \<times> effect list" where
  "zoomOut s =
     (if 0 < zoom s then (s\<lparr>zoom := js_sub (zoom s) double_0_1\<rparr>, [Start_resizePlot])
      else (s, []))"

text \<open>\<open>zoomIn()\<close>: \<open>this.zoom += 0.1; void this.resizePlot();\<close>.\<close>

definition zoomIn :: "HttpgdViewer \<Rightarrow> HttpgdViewer \<times> effect list" where
  "zoomIn s = (s\<lparr>zoom := js_add (zoom s) double_0_1\<rparr>, [Start_resizePlot])"

text \<open>\<open>n\<close> calls of \<open>zoomOut\<close> in a row.\<close>

primrec zoomOut_times :: "nat \<Rightarrow> HttpgdViewer \<Rightarrow> HttpgdViewer" where
  "zoomOut_times 0 s = s"
| "zoomOut_times (Suc n) s = fst (zoomOut (zoomOut_times n s))"


subsection \<open>Export\<close>

text \<open>
  \<open>exportPlot(id?, rendererId?, outFile?)\<close>. The two dialogs are collaborators: \<open>quickPick\<close>
  is the renderer id the user picks and \<open>saveDialog\<close> the path the user chooses, \<open>None\<close>
  when the dialog is dismissed. The render request is
  \<^verbatim>\<open>this.api.getPlot({ id: this.activePlot, renderer: rendererId })\<close>
  and its body is piped into a write stream on \<open>outFile\<close>.
\<close>

definition exportPlot ::
  "HttpgdViewer \<Rightarrow> string option \<Rightarrow> string option \<Rightarrow> string option \<Rightarrow> string option \<Rightarrow> string option
     \<Rightarrow> HttpgdViewer \<times> effect list" where
  "exportPlot s id_arg rendererId_arg outFile_arg quickPick saveDialog =
     (let id1 = or_else id_arg
                  (or_else (activePlot s)
                     (map_option plot_id (at_index (plots s) (int (length (plots s)) - 1))))
      in case (case id1 of None \<Rightarrow> None | Some i \<Rightarrow> find (\<lambda>plt. plot_id plt = i) (plots s)) of
           None \<Rightarrow> (s, [ShowWarningMessage ''No plot available for export.''])
         | Some plot \<Rightarrow>
             (case (if truthy rendererId_arg then rendererId_arg else quickPick) of
                None \<Rightarrow> (s, [])
              | Some rendererId \<Rightarrow>
                  if rendererId = [] then (s, [])
                  else (case (if truthy outFile_arg then Some (s, outFile_arg)
                              else (case saveDialog of
                                      None \<Rightarrow> None
                                    | Some outUri \<Rightarrow> Some (s\<lparr>lastExportUri := Some outUri\<rparr>, Some outUri))) of
                          None \<Rightarrow> (s, [])
                        | Some (s1, None) \<Rightarrow> (s1, [])
                        | Some (s1, Some outFile) \<Rightarrow>
                            (s1, [ApiGetPlot (activePlot s1) rendererId, CreateWriteStream outFile]))))"

section \<open>The registry: class \<open>HttpgdManager\<close>\<close>

text \<open>
  The registry holds references to session objects in two places, the list \<open>viewers\<close>
  and the lists of the map \<open>recentlyActiveViewers\<close>; both may hold the same object.
  A reference is the index of the object in the store \<open>objects\<close>, so \<open>indexOf\<close> and
  \<open>includes\<close> compare references as JavaScript does. The map is an association list in
  insertion order, as a JavaScript \<open>Map\<close>.
\<close>

record HttpgdManager =
  viewers :: "nat list"
  recentlyActiveViewers :: "(string \<times> nat list) list"
  objects :: "HttpgdViewer list"
  lastPlotUrl :: "string option"
  lastPlotPid :: "string option"

definition new_HttpgdManager :: HttpgdManager where
  "new_HttpgdManager =
     \<lparr> viewers = [], recentlyActiveViewers = [], objects = [],
       lastPlotUrl = None, lastPlotPid = None \<rparr>"

definition GUEST_PID :: string where
  "GUEST_PID = ''__guest__''"

definition MANUAL_PID :: string where
  "MANUAL_PID = ''__manual__''"

text \<open>The settings \<open>showViewer\<close> reads with \<open>conf.get(key, default)\<close>; \<open>None\<close> is a key not set.\<close>

record settings =
  plot_defaults_colorTheme :: "string option"
  plot_defaults_plotPreviewLayout :: "PreviewPlotLayout option"
  plot_timing_refreshInterval :: "int option"
  plot_timing_resizeInterval :: "int option"
  plot_defaults_fullWindowMode :: "bool option"

definition conf_get :: "'a option \<Rightarrow> 'a \<Rightarrow> 'a" where
  "conf_get v d = (case v of None \<Rightarrow> d | Some x \<Rightarrow> x)"

text \<open>The options \<open>showViewer\<close> passes to the constructor of a new session.\<close>

definition viewerOptions_of :: "settings \<Rightarrow> string option \<Rightarrow> HttpgdViewerOptions" where
  "viewerOptions_of conf tok =
     \<lparr> opt_token = tok,
       opt_stripStyles = Some (conf_get (plot_defaults_colorTheme conf) ''vscode'' = ''vscode''),
       opt_previewPlotLayout = Some (conf_get (plot_defaults_plotPreviewLayout conf) multirow),
       opt_fullWindow = Some (conf_get (plot_defaults_fullWindowMode conf) False),
       opt_refreshTimeoutLength = Some (conf_get (plot_timing_refreshInterval conf) 10),
       opt_resizeTimeoutLength = Some (conf_get (plot_timing_resizeInterval conf) 100) \<rparr>"

text \<open>\<open>xs.splice(ind, 1)\<close> and \<open>xs.indexOf(v)\<close>.\<close>

definition splice1 :: "nat \<Rightarrow> 'a list \<Rightarrow> 'a list" where
  "splice1 ind xs = take ind xs @ drop (Suc ind) xs"

definition indexOf :: "'a list \<Rightarrow> 'a \<Rightarrow> int" where
  "indexOf xs v = findIndex (\<lambda>x. x = v) xs"

text \<open>\<open>registerActiveViewer(viewer)\<close>: moves the session to the front of \<open>viewers\<close>.\<close>

definition registerActiveViewer :: "HttpgdManager \<Rightarrow> nat \<Rightarrow> HttpgdManager" where
  "registerActiveViewer m v =
     (let ind = indexOf (viewers m) v;
          vs = (if 0 \<le> ind then splice1 (nat ind) (viewers m) else viewers m)
      in m\<lparr>viewers := v # vs\<rparr>)"

text \<open>
  \<open>HttpgdViewer.show(preserveFocus)\<close> as the registry sees it: the session makes its
  webview if it has none (\<open>makeNewWebview\<close>, \<open>refreshHtml\<close>), else reveals it, and calls
  \<open>this.parent.registerActiveViewer(this)\<close>.
\<close>

definition show_viewer :: "HttpgdManager \<Rightarrow> nat \<Rightarrow> HttpgdManager" where
  "show_viewer m v =
     (let obj = objects m ! v;
          obj1 = (if \<not> webviewPanel obj then fst (refreshHtml obj) else obj)
      in registerActiveViewer (m\<lparr>objects := (objects m)[v := obj1]\<rparr>) v)"

text \<open>
  \<open>showViewer(urlString, pid)\<close>. The URL parser is a parameter: \<open>parse_url u\<close> is the
  host and the token of \<open>new URL(u)\<close>, \<open>None\<close> where the constructor throws. The calls
  \<open>reconnect\<close>, \<open>shareServer\<close> and \<open>notifyGuestPlotManager\<close> reach collaborators only and
  leave the five fields of the record alone.
\<close>

datatype show_result = Shown HttpgdManager | Invalid_URL HttpgdManager

definition showViewer ::
  "(string \<Rightarrow> (string \<times> string option) option) \<Rightarrow> settings \<Rightarrow> HttpgdManager \<Rightarrow> string \<Rightarrow> string
     \<Rightarrow> show_result" where
  "showViewer parse_url conf m urlString p =
     (let m1 = m\<lparr>lastPlotUrl := Some urlString, lastPlotPid := Some p\<rparr>
      in case parse_url urlString of
           None \<Rightarrow> Invalid_URL m1
         | Some (h, tok) \<Rightarrow>
             (let vs = (case map_of (recentlyActiveViewers m1) p of None \<Rightarrow> [] | Some l \<Rightarrow> l);
                  existingPidViewer = find (\<lambda>v. host (objects m1 ! v) = h) vs;
                  ind = findIndex (\<lambda>v. host (objects m1 ! v) = h) (viewers m1)
              in case existingPidViewer of
                   Some v \<Rightarrow>
                     (let existingIndex = indexOf (viewers m1) v;
                          m2 = m1\<lparr>viewers := v # (if 0 \<le> existingIndex
                                                   then splice1 (nat existingIndex) (viewers m1)
                                                   else viewers m1)\<rparr>;
                          m3 = show_viewer m2 v
                      in Shown (m3\<lparr>recentlyActiveViewers := AList.update p vs (recentlyActiveViewers m3)\<rparr>))
                 | None \<Rightarrow>
                     if 0 \<le> ind
                     then (let v = viewers m1 ! nat ind;
                               m2 = m1\<lparr>viewers := v # splice1 (nat ind) (viewers m1)\<rparr>;
                               m3 = show_viewer m2 v;
                               vs1 = (if v \<in> set vs then vs else v # vs)
                           in Shown (m3\<lparr>recentlyActiveViewers := AList.update p vs1 (recentlyActiveViewers m3)\<rparr>))
                     else (let v = length (objects m1);
                               m2 = m1\<lparr>objects := objects m1 @ [new_HttpgdViewer h (viewerOptions_of conf tok) (Some p)]\<rparr>;
                               vs1 = v # vs
                           in Shown (m2\<lparr>recentlyActiveViewers := AList.update p vs1 (recentlyActiveViewers m2)\<rparr>))))"

section \<open>The Live Share handlers: \<open>src/liveShare/shareCommands.ts\<close>\<close>

text \<open>
  Handler arguments are untyped at run time (\<open>unknown\<close>), so they are values of
  JavaScript, as they arrive from the RPC channel: an object is the list of its own
  properties, whose values are again such values (no functions, no cycles), and a
  number is an integer below \<open>2^53\<close> in magnitude.
\<close>

datatype jsval =
    JUndefined
  | JNull
  | JBool bool
  | JNum int
  | JStr string
  | JArr "jsval list"
  | JObj "(string \<times> jsval) list"










text \<open>
  What a handler does with its arguments: the calls it makes, with the values it
  passes. The handlers read the environment of the extension (whether sharing, the
  host service, the R session, command forwarding and the help provider are there,
  and whether the guest has attached).
\<close>

datatype action =
    RunTextInTerm string
  | SendNotifyMessage string string
  | GetHelpFileForPath jsval
  | SessionRequest jsval
  | ReadFile jsval jsval
  | UpdateGuestRequest jsval jsval
  | UpdateGuestWorkspace jsval
  | UpdateGuestPlot jsval
  | ShowGuestViewer jsval
  | DetachGuest
  | ClearGuestAttachRequested
  | WindowShowErrorMessage jsval
  | WindowShowInformationMessage jsval
  | WindowShowWarningMessage jsval
  | Throws string

record share_env =
  shareWorkspace :: bool
  rHostService :: bool
  server :: bool
  forwardCommands :: bool
  globalRHelp :: bool
  isGuestAttached :: bool





text \<open>The host's request handlers.\<close>

definition host_RequestAttachGuest :: "share_env \<Rightarrow> action list" where
  "host_RequestAttachGuest env =
     (if \<not> shareWorkspace env \<or> \<not> rHostService env
      then [SendNotifyMessage ''The host has not enabled guest attach.'' ''warning'']
      else if \<not> server env
      then [SendNotifyMessage ''No active host session to attach.'' ''warning'']
      else [RunTextInTerm ''.vsc.attach()''])"









definition guest_OrderDetach :: "action list" where
  "guest_OrderDetach = [DetachGuest]"


section \<open>Samples\<close>

text \<open>
  Concrete sessions for the closed theorems below, each built by running the
  operations from the constructor. The sample server renders every plot as the same
  text. \<open>panel_disposed\<close> is the \<open>onDidDispose\<close> callback of the webview panel (the user
  closes the panel): it sets \<open>this.webviewPanel = undefined\<close>.
\<close>

definition no_options :: HttpgdViewerOptions where
  "no_options =
     \<lparr> opt_token = None, opt_stripStyles = None, opt_previewPlotLayout = None,
       opt_fullWindow = None, opt_refreshTimeoutLength = None, opt_resizeTimeoutLength = None \<rparr>"

definition ids_response :: "string list \<Rightarrow> HttpgdIdResponse list" where
  "ids_response ids = map (\<lambda>i. \<lparr>resp_id = i\<rparr>) ids"

definition sample_api :: "string list \<Rightarrow> Httpgd" where
  "sample_api ids = \<lparr> getPlots = ids_response ids, getPlot = (\<lambda>i w h z r. ''<svg/>'') \<rparr>"

definition panel_disposed :: "HttpgdViewer \<Rightarrow> HttpgdViewer" where
  "panel_disposed s = s\<lparr>webviewPanel := False\<rparr>"

definition session_new :: HttpgdViewer where
  "session_new = new_HttpgdViewer ''127.0.0.1:5900'' no_options (Some ''4242'')"

definition session_1 :: HttpgdViewer where
  "session_1 = fst (refreshPlots (sample_api [''1'']) session_new (ids_response [''1'']) False False)"

definition session_12 :: HttpgdViewer where
  "session_12 = fst (refreshPlots (sample_api [''1'', ''2'']) session_1 (ids_response [''1'', ''2'']) False False)"

text \<open>The user hides the only plot of \<open>session_1\<close>: no plot is left, the webview stays open.\<close>

definition session_none :: HttpgdViewer where
  "session_none = fst (hidePlot session_1 None)"

text \<open>
  The user closes the panel of \<open>session_1\<close>; then the server, whose plot 1 was removed and
  which has drawn plot 2 since, announces the list \<open>[2]\<close>.
\<close>

definition session_1_closed :: HttpgdViewer where
  "session_1_closed = panel_disposed session_1"

definition session_stale :: HttpgdViewer where
  "session_stale = fst (refreshPlots (sample_api [''2'']) session_1_closed (ids_response [''2'']) False False)"

text \<open>
  The webview of \<open>session_12\<close> is resized by the user to 600 by 600 and plot 2 is focused,
  which renders it at that size; then the container grows to 800 wide.
\<close>

definition session_square :: HttpgdViewer where
  "session_square =
     (case focusPlot (sample_api [''1'', ''2'']) (fst (handleResize session_12 600 600 True)) None of
        Returned s es \<Rightarrow> s | Rejected e s \<Rightarrow> s)"

definition session_wide :: HttpgdViewer where
  "session_wide = fst (handleResize session_square 600 800 False)"

text \<open>A URL parser that knows one address, and a configuration with no key set.\<close>

definition sample_url :: string where
  "sample_url = ''http://127.0.0.1:5900/live?token=abc''"

definition sample_parse_url :: "string \<Rightarrow> (string \<times> string option) option" where
  "sample_parse_url u = (if u = sample_url then Some (''127.0.0.1:5900'', Some ''abc'') else None)"

definition no_settings :: settings where
  "no_settings =
     \<lparr> plot_defaults_colorTheme = None, plot_defaults_plotPreviewLayout = None,
       plot_timing_refreshInterval = None, plot_timing_resizeInterval = None,
       plot_defaults_fullWindowMode = None \<rparr>"

text \<open>\<open>show_again r p\<close>: one more \<open>showViewer(sample_url, p)\<close> on the registry \<open>r\<close> holds.\<close>

definition registry_of :: "show_result \<Rightarrow> HttpgdManager" where
  "registry_of r = (case r of Shown m \<Rightarrow> m | Invalid_URL m \<Rightarrow> m)"

definition show_again :: "show_result \<Rightarrow> string \<Rightarrow> show_result" where
  "show_again r p = showViewer sample_parse_url no_settings (registry_of r) sample_url p"




section \<open>Theorems\<close>

subsection \<open>What a refresh leaves in the session\<close>

lemma addPlot_fields:
  "plots (fst (addPlot s plt)) = plots s"
  "webviewPanel (fst (addPlot s plt)) = webviewPanel s"
  "activePlot (fst (addPlot s plt)) = (if plot_id plt = [] then activePlot s else Some (plot_id plt))"
  by (simp_all add: addPlot_def focusPlot_begin_def Let_def or_else_def truthy_def case_prod_beta)

lemma patch_display_fst_Cons:
  "fst (patch_display old s (plt # rest)) =
     (if plot_id plt \<in> set old then fst (patch_display old s rest)
      else fst (patch_display old (fst (addPlot s plt)) rest))"
  by (simp add: case_prod_beta Let_def)

lemma patch_display_plots:
  "plots (fst (patch_display old s ps)) = plots s"
proof (induction ps arbitrary: s)
  case Nil
  show ?case by simp
next
  case (Cons plt rest)
  show ?case
    unfolding patch_display_fst_Cons by (simp add: Cons.IH addPlot_fields(1))
qed

lemma patch_display_activePlot:
  "activePlot (fst (patch_display old s ps)) =
     (let app = filter (\<lambda>i. i \<notin> set old \<and> i \<noteq> []) (map plot_id ps)
      in if app = [] then activePlot s else Some (last app))"
proof (induction ps arbitrary: s)
  case Nil
  show ?case by simp
next
  case (Cons plt rest)
  show ?case
    unfolding patch_display_fst_Cons
    by (simp add: Cons.IH addPlot_fields(3) Let_def)
qed

lemma refreshHtml_fields:
  "plots (fst (refreshHtml s)) = plots s"
  "activePlot (fst (refreshHtml s)) = activePlot s"
  by (simp_all add: refreshHtml_def toggleFullWindow_def Let_def)

lemma refreshPlots_plots:
  "plots (fst (refreshPlots api s L redraw force)) =
     map (\<lambda>i. case find (\<lambda>plt. plot_id plt = i) (plots s) of
                None \<Rightarrow> getPlotContent api i (viewWidth s) (viewHeight s) (zoom s)
              | Some plot \<Rightarrow>
                  if force \<or> Some i = activePlot s
                  then getPlotContent api i (viewWidth s) (viewHeight s) (zoom s)
                  else plot)
         (filter (\<lambda>i. i \<notin> set (hiddenPlots s)) (map resp_id L))"
  by (simp add: refreshPlots_def Let_def case_prod_beta refreshHtml_fields patch_display_plots)

lemma newPlots_ids:
  "map (plot_id \<circ> (\<lambda>i. case find (\<lambda>plt. plot_id plt = i) ps of
                None \<Rightarrow> getPlotContent api i w h z
              | Some plot \<Rightarrow> if c i then getPlotContent api i w h z else plot)) T = T"
proof -
  have "plot_id (case find (\<lambda>plt. plot_id plt = i) ps of
                None \<Rightarrow> getPlotContent api i w h z
              | Some plot \<Rightarrow> if c i then getPlotContent api i w h z else plot) = i" for i
    by (auto simp: getPlotContent_def find_Some_iff split: option.splits)
  then show ?thesis by (simp add: comp_def)
qed

lemma refreshPlots_ids:
  "map plot_id (plots (fst (refreshPlots api s L redraw force))) =
     filter (\<lambda>i. i \<notin> set (hiddenPlots s)) (map resp_id L)"
  unfolding refreshPlots_plots map_map by (rule newPlots_ids)

lemma at_index_last:
  "at_index xs (int (length xs) - 1) = (if xs = [] then None else Some (last xs))"
  by (cases xs rule: rev_cases) (simp_all add: at_index_def)

lemma snap_active:
  "activePlot (if length N \<noteq> n
               then s\<lparr>plots := N, activePlot := map_option plot_id (at_index N (int (length N) - 1))\<rparr>
               else s\<lparr>plots := N\<rparr>) =
     (if length N \<noteq> n then (if N = [] then None else Some (plot_id (last N))) else activePlot s)"
  by (simp add: at_index_last)

lemma refreshPlots_activePlot:
  "activePlot (fst (refreshPlots api s L redraw force)) =
     (let s' = fst (refreshPlots api s L redraw force);
          appended = filter (\<lambda>i. i \<notin> plot_id ` set (plots s) \<and> i \<noteq> [])
                            (filter (\<lambda>i. i \<notin> set (hiddenPlots s)) (map resp_id L))
      in if \<not> redraw \<and> webviewPanel s \<and> appended \<noteq> [] then Some (last appended)
         else if length (plots s') \<noteq> length (plots s)
              then (if plots s' = [] then None else Some (plot_id (last (plots s'))))
              else activePlot s)"
proof -
  let ?T = "filter (\<lambda>i. i \<notin> set (hiddenPlots s)) (map resp_id L)"
  let ?f = "\<lambda>i. case find (\<lambda>plt. plot_id plt = i) (plots s) of
                None \<Rightarrow> getPlotContent api i (viewWidth s) (viewHeight s) (zoom s)
              | Some plot \<Rightarrow>
                  if force \<or> Some i = activePlot s
                  then getPlotContent api i (viewWidth s) (viewHeight s) (zoom s)
                  else plot"
  let ?N = "map ?f ?T"
  let ?s2 = "if length ?N \<noteq> length (plots s)
             then s\<lparr>plots := ?N, activePlot := map_option plot_id (at_index ?N (int (length ?N) - 1))\<rparr>
             else s\<lparr>plots := ?N\<rparr>"
  have ids: "map plot_id ?N = ?T"
    unfolding map_map by (rule newPlots_ids)
  have pl: "plots (fst (refreshPlots api s L redraw force)) = ?N"
    by (rule refreshPlots_plots)
  have a2: "activePlot ?s2 =
      (if length ?N \<noteq> length (plots s)
       then (if ?N = [] then None else Some (plot_id (last ?N))) else activePlot s)"
    by (rule snap_active)
  have p2: "plots ?s2 = ?N" and w2: "webviewPanel ?s2 = webviewPanel s"
    by simp_all
  have r: "fst (refreshPlots api s L redraw force) =
      (if redraw \<or> \<not> webviewPanel s then fst (refreshHtml ?s2)
       else fst (patch_display (map plot_id (plots s)) ?s2 ?N))"
    by (simp add: refreshPlots_def Let_def case_prod_beta)
  show ?thesis
  proof (cases "redraw \<or> \<not> webviewPanel s")
    case True
    then have "activePlot (fst (refreshPlots api s L redraw force)) = activePlot ?s2"
      unfolding r by (simp only: if_True refreshHtml_fields)
    then show ?thesis using True a2 pl by (auto simp: Let_def)
  next
    case False
    then have "activePlot (fst (refreshPlots api s L redraw force)) =
        activePlot (fst (patch_display (map plot_id (plots s)) ?s2 ?N))"
      unfolding r by (simp only: if_False)
    also have "\<dots> = (let app = filter (\<lambda>i. i \<notin> set (map plot_id (plots s)) \<and> i \<noteq> []) (map plot_id ?N)
                     in if app = [] then activePlot ?s2 else Some (last app))"
      by (rule patch_display_activePlot)
    finally show ?thesis using False a2 pl unfolding ids by (auto simp: Let_def)
  qed
qed


subsection \<open>Display toggles\<close>

text \<open>
  Claim C10. For every session and every boolean \<open>b\<close>, \<open>toggleStyle(b)\<close> sets
  \<open>stripStyles\<close> to exactly \<open>b\<close> and \<open>toggleFullWindow(b)\<close> sets \<open>fullWindow\<close> to exactly
  \<open>b\<close>, whatever the flag was; called with no argument each negates its flag, so two
  calls with no argument restore the flag.
\<close>

theorem toggle_flags:
  "stripStyles (fst (toggleStyle s (Some b))) = b
   \<and> fullWindow (fst (toggleFullWindow s (Some b))) = b
   \<and> stripStyles (fst (toggleStyle s None)) = (\<not> stripStyles s)
   \<and> fullWindow (fst (toggleFullWindow s None)) = (\<not> fullWindow s)
   \<and> stripStyles (fst (toggleStyle (fst (toggleStyle s None)) None)) = stripStyles s
   \<and> fullWindow (fst (toggleFullWindow (fst (toggleFullWindow s None)) None)) = fullWindow s"
  by (simp add: toggleStyle_def toggleFullWindow_def Let_def)

lemma find_Some_mem: "find P xs = Some x \<Longrightarrow> x \<in> set xs \<and> P x"
  by (induction xs) (auto split: if_splits)

subsection \<open>The sample sessions, evaluated\<close>

lemma session_1_eq:
  "session_1 = session_new\<lparr>webviewPanel := True, plots := [\<lparr>plot_id = ''1'', plot_data = ''<svg/>'', plot_height = 600, plot_width = 800, plot_zoom = 1\<rparr>], activePlot := Some ''1''\<rparr>"
  by (simp add: session_1_def session_new_def new_HttpgdViewer_def no_options_def sample_api_def
      ids_response_def refreshPlots_def refreshHtml_def toggleFullWindow_def getPlotContent_def
      postWebviewMessage_def at_index_def Let_def)

lemma session_12_eq:
  "session_12 = session_new\<lparr>webviewPanel := True,
      plots := [\<lparr>plot_id = ''1'', plot_data = ''<svg/>'', plot_height = 600, plot_width = 800, plot_zoom = 1\<rparr>,
                \<lparr>plot_id = ''2'', plot_data = ''<svg/>'', plot_height = 600, plot_width = 800, plot_zoom = 1\<rparr>],
      activePlot := Some ''2''\<rparr>"
  by (simp add: session_12_def session_1_eq session_new_def new_HttpgdViewer_def no_options_def sample_api_def
      ids_response_def refreshPlots_def refreshHtml_def toggleFullWindow_def getPlotContent_def
      postWebviewMessage_def at_index_def Let_def addPlot_def focusPlot_begin_def or_else_def truthy_def
      activeIndex_def getIndex_def updatePlot_def focusPlot_msg_def nullish_def)

lemmas viewer_defs =
  session_new_def new_HttpgdViewer_def no_options_def sample_api_def ids_response_def
  refreshPlots_def refreshHtml_def toggleFullWindow_def getPlotContent_def postWebviewMessage_def
  at_index_def Let_def addPlot_def focusPlot_begin_def or_else_def truthy_def activeIndex_def
  getIndex_def updatePlot_def focusPlot_msg_def nullish_def hidePlot_def hidePlot_msg_def
  set_activeIndex_def focusPlot_def nextPlot_def prevPlot_def panel_disposed_def handleResize_def

lemma session_none_eq:
  "session_none = session_new\<lparr>webviewPanel := True, hiddenPlots := [''1'']\<rparr>"
  by (simp add: session_none_def session_1_eq viewer_defs)

lemma session_stale_eq:
  "session_stale = session_new\<lparr>webviewPanel := True,
      plots := [\<lparr>plot_id = ''2'', plot_data = ''<svg/>'', plot_height = 600, plot_width = 800, plot_zoom = 1\<rparr>],
      activePlot := Some ''1''\<rparr>"
  by (simp add: session_stale_def session_1_closed_def session_1_eq viewer_defs)

lemma session_wide_eq:
  "session_wide = session_new\<lparr>webviewPanel := True,
      plots := [\<lparr>plot_id = ''1'', plot_data = ''<svg/>'', plot_height = 600, plot_width = 800, plot_zoom = 1\<rparr>,
                \<lparr>plot_id = ''2'', plot_data = ''<svg/>'', plot_height = 600, plot_width = 600, plot_zoom = 1\<rparr>],
      activePlot := Some ''2'', resizeTimeout := True\<rparr>"
  by (simp add: session_wide_def session_square_def session_12_eq viewer_defs)

subsection \<open>The refresh protocol\<close>

text \<open>
  Claim C2, as the code has it. For every refresh with incoming id list \<open>L\<close>, the
  resulting plots are exactly \<open>L\<close> minus the hidden ids, in order; an id that already
  has a local plot and is not the active plot keeps that plot when \<open>force\<close> is false,
  and every other target id is fetched at the current view size and zoom. If the
  resulting count differs from the previous count, the active plot is set to the last
  plot of the new list; that is the outcome when the page is rebuilt (a redraw, or no
  webview) or when no new id appears. When the webview is patched in place, each newly
  appearing plot is focused as it is added, so the active plot ends as the last newly
  appearing id (an empty id is never focused).
\<close>

theorem refreshPlots_result:
  fixes api s L redraw force
  defines "s' \<equiv> fst (refreshPlots api s L redraw force)"
  defines "targets \<equiv> filter (\<lambda>i. i \<notin> set (hiddenPlots s)) (map resp_id L)"
  defines "fresh \<equiv> \<lambda>i. \<lparr> plot_id = i,
                         plot_data = getPlot api i (viewWidth s) (viewHeight s) (zoom s) ''svgp'',
                         plot_height = viewHeight s, plot_width = viewWidth s, plot_zoom = zoom s \<rparr>"
  defines "appended \<equiv> filter (\<lambda>i. i \<notin> plot_id ` set (plots s) \<and> i \<noteq> []) targets"
  shows "map plot_id (plots s') = targets
     \<and> (\<forall>n < length targets.
           (\<not> force \<and> Some (targets ! n) \<noteq> activePlot s \<and> targets ! n \<in> plot_id ` set (plots s)
              \<longrightarrow> find (\<lambda>plt. plot_id plt = targets ! n) (plots s) = Some (plots s' ! n))
         \<and> (force \<or> Some (targets ! n) = activePlot s \<or> targets ! n \<notin> plot_id ` set (plots s)
              \<longrightarrow> plots s' ! n = fresh (targets ! n)))
     \<and> (length (plots s') \<noteq> length (plots s) \<longrightarrow>
           activePlot s' =
             (if \<not> redraw \<and> webviewPanel s \<and> appended \<noteq> [] then Some (last appended)
              else if plots s' = [] then None else Some (plot_id (last (plots s')))))"
proof (intro conjI allI impI)
  show "map plot_id (plots s') = targets"
    unfolding s'_def targets_def by (rule refreshPlots_ids)
next
  fix n assume n: "n < length targets"
  have nth: "plots s' ! n =
      (case find (\<lambda>plt. plot_id plt = targets ! n) (plots s) of
         None \<Rightarrow> fresh (targets ! n)
       | Some plot \<Rightarrow> if force \<or> Some (targets ! n) = activePlot s then fresh (targets ! n) else plot)"
    using n unfolding s'_def targets_def fresh_def refreshPlots_plots getPlotContent_def
    by simp
  {
    assume a: "\<not> force \<and> Some (targets ! n) \<noteq> activePlot s \<and> targets ! n \<in> plot_id ` set (plots s)"
    then obtain p where "find (\<lambda>plt. plot_id plt = targets ! n) (plots s) = Some p"
      by (cases "find (\<lambda>plt. plot_id plt = targets ! n) (plots s)") (auto simp: find_None_iff)
    then show "find (\<lambda>plt. plot_id plt = targets ! n) (plots s) = Some (plots s' ! n)"
      using a nth by simp
  }
  {
    assume a: "force \<or> Some (targets ! n) = activePlot s \<or> targets ! n \<notin> plot_id ` set (plots s)"
    show "plots s' ! n = fresh (targets ! n)"
    proof (cases "find (\<lambda>plt. plot_id plt = targets ! n) (plots s)")
      case None
      then show ?thesis using nth by simp
    next
      case (Some p)
      then have "targets ! n \<in> plot_id ` set (plots s)"
        using find_Some_mem [OF Some] by force
      then show ?thesis using a Some nth by simp
    qed
  }
next
  assume d: "length (plots s') \<noteq> length (plots s)"
  show "activePlot s' =
             (if \<not> redraw \<and> webviewPanel s \<and> appended \<noteq> [] then Some (last appended)
              else if plots s' = [] then None else Some (plot_id (last (plots s'))))"
  proof -
    have e: "activePlot s' =
        (if \<not> redraw \<and> webviewPanel s \<and> appended \<noteq> [] then Some (last appended)
         else if length (plots s') \<noteq> length (plots s)
              then (if plots s' = [] then None else Some (plot_id (last (plots s'))))
              else activePlot s)"
      using refreshPlots_activePlot [of api s L redraw force]
      unfolding Let_def s'_def appended_def targets_def .
    from d have pick: "(if length (plots s') \<noteq> length (plots s) then X else Y) = X"
      for X Y :: "string option"
      by simp
    show ?thesis unfolding e pick ..
  qed
qed


text \<open>
  The theorem at a sample: the session shows plots 1 and 2 with 2 active, and the server
  announces 1, 2, 3. Plot 1 is kept, plot 3 is fetched at 800 by 600 and zoom 1, and
  plot 3 becomes active.
\<close>

theorem refreshPlots_result_witness:
  "map plot_id (plots (fst (refreshPlots (sample_api [''1'', ''2'', ''3'']) session_12
                        (ids_response [''1'', ''2'', ''3'']) False False))) = [''1'', ''2'', ''3'']
   \<and> find (\<lambda>plt. plot_id plt = ''1'') (plots session_12)
       = Some (plots (fst (refreshPlots (sample_api [''1'', ''2'', ''3'']) session_12
                        (ids_response [''1'', ''2'', ''3'']) False False)) ! 0)
   \<and> plots (fst (refreshPlots (sample_api [''1'', ''2'', ''3'']) session_12
                        (ids_response [''1'', ''2'', ''3'']) False False)) ! 2
       = \<lparr> plot_id = ''3'', plot_data = ''<svg/>'', plot_height = 600, plot_width = 800, plot_zoom = 1 \<rparr>
   \<and> activePlot (fst (refreshPlots (sample_api [''1'', ''2'', ''3'']) session_12
                        (ids_response [''1'', ''2'', ''3'']) False False)) = Some ''3''"
proof -
  let ?s' = "fst (refreshPlots (sample_api [''1'', ''2'', ''3'']) session_12
                        (ids_response [''1'', ''2'', ''3'']) False False)"
  have T: "filter (\<lambda>i. i \<notin> set (hiddenPlots session_12)) (map resp_id (ids_response [''1'', ''2'', ''3'']))
           = [''1'', ''2'', ''3'']"
    by (simp add: session_12_eq session_new_def new_HttpgdViewer_def ids_response_def)
  have img: "plot_id ` set (plots session_12) = {''1'', ''2''}"
    by (simp add: session_12_eq insert_commute)
  have ses: "activePlot session_12 = Some ''2''" "webviewPanel session_12"
      "viewWidth session_12 = 800" "viewHeight session_12 = 600" "zoom session_12 = 1"
      "length (plots session_12) = 2"
    by (simp_all add: session_12_eq session_new_def new_HttpgdViewer_def)
  note r = refreshPlots_result [of "sample_api [''1'', ''2'', ''3'']" session_12
      "ids_response [''1'', ''2'', ''3'']" False False, unfolded T img ses]
  have c1: "map plot_id (plots ?s') = [''1'', ''2'', ''3'']"
    using r by blast
  then have len: "length (plots ?s') = 3" "plots ?s' \<noteq> []"
    by (auto dest: arg_cong [where f = length])
  note nth = r [THEN conjunct2, THEN conjunct1, rule_format]
  have c2: "find (\<lambda>plt. plot_id plt = ''1'') (plots session_12) = Some (plots ?s' ! 0)"
    using nth [of 0] by simp
  have c3: "plots ?s' ! 2 = \<lparr> plot_id = ''3'', plot_data = ''<svg/>'', plot_height = 600,
                              plot_width = 800, plot_zoom = 1 \<rparr>"
    using nth [of 2] by (simp add: sample_api_def)
  have c4: "activePlot ?s' = Some ''3''"
    using r [THEN conjunct2, THEN conjunct2] len ses(2) by simp
  show ?thesis using c1 c2 c3 c4 by blast
qed

text \<open>
  Claim C2 as stated fails where a new id is not the last of the list: the session
  shows plots 1 and 2, the webview is open, and the server announces 3, 1, 2. The count
  changes from 2 to 3 and the active plot ends as 3, which \<open>addPlot\<close> focused, while
  the last plot of the new list is 2.
\<close>

theorem refreshPlots_active_not_last:
  "length (plots (fst (refreshPlots (sample_api [''3'', ''1'', ''2'']) session_12
                        (ids_response [''3'', ''1'', ''2'']) False False)))
     \<noteq> length (plots session_12)
   \<and> map plot_id (plots (fst (refreshPlots (sample_api [''3'', ''1'', ''2'']) session_12
                        (ids_response [''3'', ''1'', ''2'']) False False))) = [''3'', ''1'', ''2'']
   \<and> activePlot (fst (refreshPlots (sample_api [''3'', ''1'', ''2'']) session_12
                        (ids_response [''3'', ''1'', ''2'']) False False)) = Some ''3''
   \<and> activePlot (fst (refreshPlots (sample_api [''3'', ''1'', ''2'']) session_12
                        (ids_response [''3'', ''1'', ''2'']) False False))
     \<noteq> Some (plot_id (last (plots (fst (refreshPlots (sample_api [''3'', ''1'', ''2'']) session_12
                        (ids_response [''3'', ''1'', ''2'']) False False)))))"
  by (simp add: session_12_eq session_new_def new_HttpgdViewer_def no_options_def sample_api_def
      ids_response_def refreshPlots_def refreshHtml_def toggleFullWindow_def getPlotContent_def
      postWebviewMessage_def at_index_def Let_def addPlot_def focusPlot_begin_def or_else_def truthy_def
      activeIndex_def getIndex_def updatePlot_def focusPlot_msg_def nullish_def)


subsection \<open>The active plot after hiding\<close>

text \<open>
  \<open>hidePlot\<close> goes through the setter when it removes the active plot, so it keeps both
  invariants; \<open>closePlot\<close> changes the session through \<open>hidePlot\<close> only.
\<close>

lemma set_activeIndex_ok:
  "[] \<notin> plot_id ` set (plots s) \<Longrightarrow> active_ok (set_activeIndex s ind)"
proof (cases "plots s = []")
  case True
  then show ?thesis by (simp add: set_activeIndex_def active_ok_def)
next
  case False
  assume ne: "[] \<notin> plot_id ` set (plots s)"
  let ?k = "nat (min (max ind 0) (int (length (plots s)) - 1))"
  obtain n where n: "length (plots s) = Suc n"
    using False by (cases "plots s") auto
  have "?k < length (plots s)"
    unfolding n by (auto simp: min_def max_def)
  then have "plots s ! ?k \<in> set (plots s)" by (rule nth_mem)
  then have m: "plot_id (plots s ! ?k) \<in> plot_id ` set (plots s)" by (rule imageI)
  then have "plot_id (plots s ! ?k) \<noteq> []" using ne by metis
  then show ?thesis
    using False m by (simp add: set_activeIndex_def active_ok_def Let_def)
qed

lemma set_activeIndex_fields:
  "plots (set_activeIndex s ind) = plots s" "hiddenPlots (set_activeIndex s ind) = hiddenPlots s"
  by (simp_all add: set_activeIndex_def Let_def)

lemma hidePlot_keeps_active:
  assumes "active_ok s" and "ids_ok s"
  shows "active_ok (fst (hidePlot s id_arg)) \<and> ids_ok (fst (hidePlot s id_arg))"
proof (cases "nullish id_arg (activePlot s)")
  case None
  then show ?thesis using assms by (simp add: hidePlot_def)
next
  case (Some i)
  show ?thesis
  proof (cases "i = []")
    case True
    then show ?thesis using Some assms by (simp add: hidePlot_def)
  next
    case False
    let ?h = "hiddenPlots s @ [i]"
    let ?s2 = "s\<lparr>hiddenPlots := ?h, plots := filter (\<lambda>plt. plot_id plt \<notin> set ?h) (plots s)\<rparr>"
    have ids2: "ids_ok ?s2"
      using assms(2) by (auto simp: ids_ok_def)
    have r: "fst (hidePlot s id_arg) =
        (if Some i = activePlot s then set_activeIndex ?s2 (activeIndex s) else ?s2)"
      using Some False by (simp add: hidePlot_def Let_def)
    show ?thesis
    proof (cases "Some i = activePlot s")
      case True
      have "[] \<notin> plot_id ` set (plots ?s2)" using ids2 by (simp add: ids_ok_def)
      then have "active_ok (set_activeIndex ?s2 (activeIndex s))"
        by (rule set_activeIndex_ok)
      moreover have "ids_ok (set_activeIndex ?s2 (activeIndex s))"
        using ids2 by (simp add: ids_ok_def set_activeIndex_fields)
      ultimately show ?thesis using True r by simp
    next
      case ne: False
      have "active_ok ?s2"
      proof (cases "activePlot s")
        case None
        then show ?thesis using assms(1) by (simp add: active_ok_def)
      next
        case (Some a)
        then have "a \<noteq> i" using ne by auto
        moreover have "a \<noteq> []" "a \<in> plot_id ` set (plots s)"
          using assms(1) Some by (simp_all add: active_ok_def)
        moreover have "a \<notin> set (hiddenPlots s)"
          using assms(2) \<open>a \<in> plot_id ` set (plots s)\<close> by (auto simp: ids_ok_def)
        ultimately show ?thesis using Some by (auto simp: active_ok_def)
      qed
      then show ?thesis using ne r ids2 by simp
    qed
  qed
qed


lemma closePlot_keeps_active:
  assumes "active_ok s" and "ids_ok s"
  shows "active_ok (fst (closePlot s id_arg)) \<and> ids_ok (fst (closePlot s id_arg))"
proof -
  have "fst (closePlot s id_arg) = s \<or> (\<exists>i. fst (closePlot s id_arg) = fst (hidePlot s (Some i)))"
    by (auto simp: closePlot_def case_prod_beta split: option.splits)
  then show ?thesis
    using assms hidePlot_keeps_active [OF assms] by auto
qed

subsection \<open>The active plot after a refresh\<close>

text \<open>
  Claim C1 says the active plot, when set, is a plot of \<open>plots\<close> after every hide,
  close, refresh and navigation. \<open>refreshPlots\<close> reassigns \<open>activePlot\<close> only when the
  number of plots changes. The session shows plot 1, active, and its panel is closed;
  the server announces \<open>[2]\<close>. The count stays 1, the page is rebuilt, and the session
  ends with plots \<open>[2]\<close>, active plot 1 and active index \<open>-1\<close>.
\<close>

theorem refreshPlots_leaves_stale_activePlot:
  "map plot_id (plots session_1_closed) = [''1'']
   \<and> activePlot session_1_closed = Some ''1''
   \<and> activeIndex session_1_closed = 0
   \<and> active_ok session_1_closed
   \<and> ids_ok session_1_closed
   \<and> map plot_id (plots session_stale) = [''2'']
   \<and> activePlot session_stale = Some ''1''
   \<and> activeIndex session_stale = - 1
   \<and> \<not> active_ok session_stale"
  by (simp add: session_stale_eq session_1_closed_def session_1_eq viewer_defs active_ok_def ids_ok_def)

subsection \<open>Navigation without a plot to focus\<close>

text \<open>
  Claim C3 says \<open>focusPlot\<close>, \<open>nextPlot\<close> and \<open>prevPlot\<close> are safe no-ops when \<open>plots\<close> is
  empty or the active id is no longer in \<open>plots\<close>. \<open>focusPlot\<close> reads
  \<open>this.plots[this.activeIndex]\<close> and then \<open>plt.height\<close> with no test in between: with
  no plot left all three reject with a \<open>TypeError\<close>, and so does \<open>focusPlot\<close> when the
  active id, or the id it is given, is not in \<open>plots\<close>.
\<close>

theorem navigation_rejects_without_plot:
  "plots session_none = []
   \<and> nextPlot (sample_api []) session_none None = Rejected TypeError session_none
   \<and> prevPlot (sample_api []) session_none None = Rejected TypeError session_none
   \<and> focusPlot (sample_api []) session_none None = Rejected TypeError session_none
   \<and> map plot_id (plots session_stale) = [''2'']
   \<and> activePlot session_stale = Some ''1''
   \<and> focusPlot (sample_api [''2'']) session_stale None = Rejected TypeError session_stale
   \<and> focusPlot (sample_api [''1'', ''2'']) session_12 (Some ''9'')
       = Rejected TypeError (session_12\<lparr>activePlot := Some ''9''\<rparr>)"
  by (simp add: session_none_eq session_stale_eq session_12_eq viewer_defs)

subsection \<open>The test that chooses between a refresh and a focus message\<close>

text \<open>
  Claim C7 says a navigation refreshes when the active plot's cached width, height or
  zoom differs from the view's, and otherwise only posts a focus message. The test
  compares the cached width with \<open>viewHeight\<close>. In \<open>session_12\<close> the cached plot is 800 by
  600 at zoom 1 and so is the view, and \<open>focusPlot\<close> runs a full refresh. In
  \<open>session_wide\<close> the cached plot is 600 wide and the view 800 wide, and \<open>focusPlot\<close> only
  posts the focus message.
\<close>

theorem focusPlot_compares_width_with_viewHeight:
  "at_index (plots session_12) (activeIndex session_12)
     = Some \<lparr>plot_id = ''2'', plot_data = ''<svg/>'', plot_height = 600, plot_width = 800, plot_zoom = 1\<rparr>
   \<and> viewWidth session_12 = 800 \<and> viewHeight session_12 = 600 \<and> zoom session_12 = 1
   \<and> focusPlot (sample_api [''1'', ''2'']) session_12 None
     = Returned session_12
         [PostMessage (UpdatePlotMessage ''1'' ''<svg/>''), PostMessage (UpdatePlotMessage ''2'' ''<svg/>''),
          PostMessage (FocusPlotMessage ''2''), SetContextValues]
   \<and> at_index (plots session_wide) (activeIndex session_wide)
     = Some \<lparr>plot_id = ''2'', plot_data = ''<svg/>'', plot_height = 600, plot_width = 600, plot_zoom = 1\<rparr>
   \<and> viewWidth session_wide = 800 \<and> viewHeight session_wide = 600 \<and> zoom session_wide = 1
   \<and> focusPlot (sample_api [''1'', ''2'']) session_wide None
     = Returned session_wide [PostMessage (FocusPlotMessage ''2''), SetContextValues]"
  by (simp add: session_wide_eq session_12_eq viewer_defs)

subsection \<open>Export\<close>

text \<open>
  Claim C5 says the payload fetched for an export is that of the resolved plot, the
  explicit id first. \<open>exportPlot\<close> resolves and checks the id, then requests
  \<open>this.activePlot\<close>: asked for plot 1 while plot 2 is active, it requests plot 2.
\<close>

theorem exportPlot_requests_activePlot:
  "map plot_id (plots session_12) = [''1'', ''2'']
   \<and> activePlot session_12 = Some ''2''
   \<and> exportPlot session_12 (Some ''1'') (Some ''png'') (Some ''/tmp/plot.png'') None None
     = (session_12, [ApiGetPlot (Some ''2'') ''png'', CreateWriteStream ''/tmp/plot.png''])"
  by (simp add: session_12_eq exportPlot_def viewer_defs)

subsection \<open>The rounding of doubles\<close>

text \<open>
  The model of double arithmetic is the usual one: the literal \<open>0.1\<close> is \<open>1/10\<close>
  rounded, \<open>binade\<close> finds the power of two below a number, and \<open>round_double\<close> moves a
  number by at most half a unit in the last place.
\<close>

lemma round_double_tenth: "round_double (1 / 10) = double_0_1"
  by code_simp

lemma round_half_even_nearest: "\<bar>of_int (round_half_even q) - q\<bar> \<le> 1 / 2"
proof -
  define r where "r = q - of_int \<lfloor>q\<rfloor>"
  have r: "0 \<le> r" "r < 1"
    unfolding r_def by linarith+
  have q: "q = of_int \<lfloor>q\<rfloor> + r"
    by (simp add: r_def)
  have "round_half_even q =
      (if r < 1 / 2 then \<lfloor>q\<rfloor> else if 1 / 2 < r then \<lfloor>q\<rfloor> + 1
       else if even \<lfloor>q\<rfloor> then \<lfloor>q\<rfloor> else \<lfloor>q\<rfloor> + 1)"
    by (simp add: round_half_even_def Let_def r_def)
  then have "of_int (round_half_even q) - q =
      (if r < 1 / 2 then - r else if 1 / 2 < r then 1 - r
       else if even \<lfloor>q\<rfloor> then - r else 1 - r)"
    using q by (auto simp: algebra_simps)
  then show ?thesis using r by (auto simp: abs_if split: if_splits)
qed

lemma pow2_powi: "pow2 e = 2 powi e"
  by (simp add: pow2_def power_int_def inverse_eq_divide power_one_over)

lemma bitlen_bounds_rat:
  assumes "0 < n"
  shows "(2::rat) powi (bitlen n - 1) \<le> of_int n \<and> of_int n < (2::rat) powi (bitlen n)"
proof -
  have ge: "1 \<le> bitlen n"
    using assms bitlen_eq_zero_iff [of n] bitlen_nonneg [of n] by linarith
  have b: "2 ^ nat (bitlen n - 1) \<le> n \<and> n < 2 ^ nat (bitlen n)"
    using assms by (rule bitlen_bounds)
  have lo: "(2::rat) powi (bitlen n - 1) = of_int (2 ^ nat (bitlen n - 1))"
    using ge by (simp add: power_int_def)
  have hi: "(2::rat) powi (bitlen n) = of_int (2 ^ nat (bitlen n))"
    using ge by (simp add: power_int_def)
  show ?thesis
    unfolding lo hi using b by (simp only: of_int_le_iff of_int_less_iff)
qed

lemma binade_bounds:
  assumes "q \<noteq> 0"
  shows "pow2 (binade q) \<le> \<bar>q\<bar> \<and> \<bar>q\<bar> < pow2 (binade q + 1)"
proof -
  obtain n d where nd: "quotient_of \<bar>q\<bar> = (n, d)"
    by (cases "quotient_of \<bar>q\<bar>")
  have d: "0 < d" using nd by (rule quotient_of_denom_pos)
  have a: "\<bar>q\<bar> = of_int n / of_int d" using nd by (rule quotient_of_div)
  have "0 < \<bar>q\<bar>" using assms by simp
  then have n: "0 < n" using a d by (simp add: zero_less_divide_iff)
  define bn where "bn = bitlen n"
  define bd where "bd = bitlen d"
  have bn: "(2::rat) powi (bn - 1) \<le> of_int n" "of_int n < (2::rat) powi bn"
    using bitlen_bounds_rat [OF n] by (simp_all add: bn_def)
  have bd: "(2::rat) powi (bd - 1) \<le> of_int d" "of_int d < (2::rat) powi bd"
    using bitlen_bounds_rat [OF d] by (simp_all add: bd_def)
  have "(2::rat) powi (bn - 1) / 2 powi bd < of_int n / of_int d"
    using bn(1) bd(2) d by (intro frac_less2) simp_all
  moreover have "(2::rat) powi (bn - bd - 1) = 2 powi (bn - 1) / 2 powi bd"
    using power_int_diff [of "2::rat" "bn - 1" bd] by (simp add: algebra_simps)
  ultimately have lo: "(2::rat) powi (bn - bd - 1) < \<bar>q\<bar>"
    unfolding a by (simp only:)
  have "of_int n / of_int d < (2::rat) powi bn / 2 powi (bd - 1)"
    using bn(2) bd(1) n by (intro frac_less) simp_all
  moreover have "(2::rat) powi (bn - bd + 1) = 2 powi bn / 2 powi (bd - 1)"
    using power_int_diff [of "2::rat" bn "bd - 1"] by (simp add: algebra_simps)
  ultimately have hi: "\<bar>q\<bar> < (2::rat) powi (bn - bd + 1)"
    unfolding a by (simp only:)
  have b: "binade q = (if (2::rat) powi (bn - bd) \<le> \<bar>q\<bar> then bn - bd else bn - bd - 1)"
    by (simp add: binade_def nd bn_def bd_def pow2_powi Let_def)
  show ?thesis
    using lo hi unfolding b pow2_powi by (auto simp: not_le)
qed

lemma round_double_nearest:
  assumes "q \<noteq> 0"
  shows "\<bar>round_double q - q\<bar> \<le> pow2 (binade q - 52) / 2"
proof -
  let ?u = "pow2 (binade q - 52)"
  have u: "0 < ?u" by (simp add: pow2_powi)
  have "round_double q - q = (of_int (round_half_even (q / ?u)) - q / ?u) * ?u"
    using assms u by (simp add: round_double_def Let_def field_simps)
  then have "\<bar>round_double q - q\<bar> = \<bar>of_int (round_half_even (q / ?u)) - q / ?u\<bar> * ?u"
    using u by (simp add: abs_mult)
  also have "\<dots> \<le> (1 / 2) * ?u"
    using round_half_even_nearest [of "q / ?u"] u by (intro mult_right_mono) simp_all
  finally show ?thesis by simp
qed

subsection \<open>Zoom\<close>

text \<open>Eleven subtractions of the double \<open>0.1\<close>, starting from 1.\<close>

lemma zoom_step_1: "js_sub 1 double_0_1 = 8106479329266893 / 9007199254740992" by code_simp
lemma zoom_step_2: "js_sub (8106479329266893 / 9007199254740992) double_0_1 = 3602879701896397 / 4503599627370496" by code_simp
lemma zoom_step_3: "js_sub (3602879701896397 / 4503599627370496) double_0_1 = 6305039478318695 / 9007199254740992" by code_simp
lemma zoom_step_4: "js_sub (6305039478318695 / 9007199254740992) double_0_1 = 1351079888211149 / 2251799813685248" by code_simp
lemma zoom_step_5: "js_sub (1351079888211149 / 2251799813685248) double_0_1 = 4503599627370497 / 9007199254740992" by code_simp
lemma zoom_step_6: "js_sub (4503599627370497 / 9007199254740992) double_0_1 = 1801439850948199 / 4503599627370496" by code_simp
lemma zoom_step_7: "js_sub (1801439850948199 / 4503599627370496) double_0_1 = 2702159776422299 / 9007199254740992" by code_simp
lemma zoom_step_8: "js_sub (2702159776422299 / 9007199254740992) double_0_1 = 7205759403792799 / 36028797018963968" by code_simp
lemma zoom_step_9: "js_sub (7205759403792799 / 36028797018963968) double_0_1 = 1801439850948201 / 18014398509481984" by code_simp
lemma zoom_step_10: "js_sub (1801439850948201 / 18014398509481984) double_0_1 = 5 / 36028797018963968" by code_simp
lemma zoom_step_11: "js_sub (5 / 36028797018963968) double_0_1 = - (450359962737049 / 4503599627370496)" by code_simp

lemmas zoom_steps = zoom_step_1 zoom_step_2 zoom_step_3 zoom_step_4 zoom_step_5 zoom_step_6
  zoom_step_7 zoom_step_8 zoom_step_9 zoom_step_10 zoom_step_11

lemma zoomOut_zoom:
  "zoom (fst (zoomOut s)) = (if 0 < zoom s then js_sub (zoom s) double_0_1 else zoom s)"
  by (simp add: zoomOut_def)

lemma zoom_session_new: "zoom session_new = 1"
  by (simp add: session_new_def new_HttpgdViewer_def)

text \<open>
  Claim C6 says the zoom factor never becomes negative and that repeated \<open>zoomOut\<close>
  calls converge to exactly 0. A new session has zoom 1. After ten calls the zoom is
  \<open>5 / 2^55\<close> (about \<open>1.39e-16\<close>), which is above 0, so the eleventh call subtracts
  again and leaves the zoom at about \<open>-0.1\<close>; from there \<open>zoomOut\<close> changes nothing.
\<close>

theorem zoomOut_goes_negative:
  "zoom session_new = 1
   \<and> zoom (zoomOut_times 10 session_new) = 5 / 36028797018963968
   \<and> zoom (zoomOut_times 11 session_new) = - (450359962737049 / 4503599627370496)
   \<and> zoom (zoomOut_times 11 session_new) < 0
   \<and> zoomOut (zoomOut_times 11 session_new) = (zoomOut_times 11 session_new, [])"
proof -
  have z10: "zoom (zoomOut_times 10 session_new) = 5 / 36028797018963968"
    by (simp add: eval_nat_numeral zoomOut_zoom zoom_session_new zoom_steps)
  have z11: "zoom (zoomOut_times 11 session_new) = - (450359962737049 / 4503599627370496)"
    by (simp add: eval_nat_numeral zoomOut_zoom zoom_session_new zoom_steps)
  have stop: "zoomOut (zoomOut_times 11 session_new) = (zoomOut_times 11 session_new, [])"
    unfolding zoomOut_def z11 by simp
  show ?thesis using z10 z11 stop by (simp add: zoom_session_new)
qed


subsection \<open>Resize throttling\<close>








text \<open>
  The resolved request of that last sample timer on \<open>session_wide\<close>: the plot rendered
  at 800 by 600 is posted, its size is stored, and no timer is pending.
\<close>

lemma resizeTimeout_resolved_sample:
  "resizeTimeout_resolved (sample_api [''1'', ''2'']) session_wide (''2'', 800, 600, 1) =
     (session_wide\<lparr>plotWidth := 800, plotHeight := 600, resizeTimeout := False\<rparr>,
      [PostMessage (UpdatePlotMessage ''2'' ''<svg/>'')])"
  by (simp add: resizeTimeout_resolved_def resizePlot_resolved_def getPlotContent_def updatePlot_def
      postWebviewMessage_def Let_def session_wide_eq sample_api_def)

lemmas registry_defs =
  show_again_def registry_of_def showViewer_def sample_parse_url_def sample_url_def no_settings_def
  new_HttpgdManager_def viewerOptions_of_def conf_get_def new_HttpgdViewer_def show_viewer_def
  registerActiveViewer_def indexOf_def splice1_def refreshHtml_def toggleFullWindow_def
  postWebviewMessage_def Let_def


subsection \<open>The registry\<close>

text \<open>
  Claim C4 says that showing one address twice under one owner yields exactly one
  session for that host on the registry's session list, at the front after each of
  the two calls, and that a host is unique on that list. The branch of \<open>showViewer\<close>
  that creates a session puts it into the owner's list only, not into \<open>viewers\<close>:
  after the first call \<open>viewers\<close> is empty, and the second call puts the session at the
  front. Since the search for an existing host looks in \<open>viewers\<close>, a second owner
  showing the same address before that gets a second session, and after both owners
  show again \<open>viewers\<close> holds two sessions of the one host.
\<close>

theorem showViewer_new_session_not_listed:
  "viewers (registry_of (show_again (Shown new_HttpgdManager) ''4242'')) = []
   \<and> recentlyActiveViewers (registry_of (show_again (Shown new_HttpgdManager) ''4242'')) = [(''4242'', [0])]
   \<and> map host (objects (registry_of (show_again (Shown new_HttpgdManager) ''4242''))) = [''127.0.0.1:5900'']
   \<and> viewers (registry_of (show_again (show_again (Shown new_HttpgdManager) ''4242'') ''4242'')) = [0]
   \<and> viewers (registry_of (show_again (show_again (show_again (show_again (Shown new_HttpgdManager)
          ''4242'') MANUAL_PID) ''4242'') MANUAL_PID)) = [1, 0]
   \<and> map host (objects (registry_of (show_again (show_again (show_again (show_again (Shown new_HttpgdManager)
          ''4242'') MANUAL_PID) ''4242'') MANUAL_PID))) = [''127.0.0.1:5900'', ''127.0.0.1:5900'']
   \<and> viewers (registry_of (show_again (show_again (show_again (show_again (show_again (show_again
          (Shown new_HttpgdManager) ''4242'') MANUAL_PID) ''4242'') MANUAL_PID) ''4242'') ''4242'')) = [0, 1]"
  by (simp add: registry_defs MANUAL_PID_def)

subsection \<open>Argument normalization\<close>







end
